theory Spec2Isabelle
  imports Complex_Main
begin

section \<open>JavaScript values used by the route handlers\<close>

text \<open>
  HTTP replies: \<open>res.status(n).json(b)\<close> is \<open>Reply n b\<close>; \<open>res.json(b)\<close> alone
  answers with status 200.
\<close>

datatype 'b reply = Reply (status: nat) (body: 'b)

text \<open>
  A value caught by a \<open>catch\<close> clause: either an \<open>Error\<close> object with its \<open>name\<close> and
  \<open>message\<close>, or any other thrown value (\<open>error instanceof Error\<close> is false).
\<close>

datatype thrown = JsError (err_name: string) (err_message: string) | NonError

text \<open>A destructuring default \<open>{ x = d }\<close>: only an absent (undefined) field takes it.\<close>

definition js_default :: "'a \<Rightarrow> 'a option \<Rightarrow> 'a" where
  "js_default d v = (case v of None \<Rightarrow> d | Some x \<Rightarrow> x)"

text \<open>\<open>String.prototype.includes\<close>: the needle occurs as a contiguous run of the haystack.\<close>

fun starts_with :: "string \<Rightarrow> string \<Rightarrow> bool" where
  "starts_with hay [] = True"
| "starts_with [] (n # ns) = False"
| "starts_with (h # hs) (n # ns) = (h = n \<and> starts_with hs ns)"

fun js_includes :: "string \<Rightarrow> string \<Rightarrow> bool" where
  "js_includes [] needle = (needle = [])"
| "js_includes (h # hs) needle = (starts_with (h # hs) needle \<or> js_includes hs needle)"

subsection \<open>Numbers\<close>

text \<open>
  A JavaScript number is a double: a finite value (given by the real number it
  denotes), \<open>NaN\<close>, or an infinity. The sign of a zero is not kept; no handler here
  divides by a zero or prints one.
\<close>

datatype js_number = Finite real | NaN | PosInf | NegInf

text \<open>
  Arithmetic on doubles rounds: the sum, product or quotient of two finite doubles is the
  exact result rounded to the nearest double, an infinity on overflow. That rounding,
  \<open>rnd\<close>, is a parameter of every definition that computes with doubles, so that what is
  proved holds for the rounding of the machine, whatever value it gives. Comparisons of
  doubles are exact.
\<close>

type_synonym rounding = "real \<Rightarrow> js_number"

text \<open>
  \<open>x / y\<close> on finite doubles. A zero divisor does not raise: the quotient is \<open>NaN\<close> or an
  infinity.
\<close>

definition js_div :: "rounding \<Rightarrow> real \<Rightarrow> real \<Rightarrow> js_number" where
  "js_div rnd x y =
     (if y = 0 then (if x = 0 then NaN else if x > 0 then PosInf else NegInf)
      else rnd (x / y))"

text \<open>\<open>a * k\<close> and \<open>a + k\<close> for a double \<open>a\<close> and a finite double \<open>k\<close>.\<close>

fun js_times :: "rounding \<Rightarrow> js_number \<Rightarrow> real \<Rightarrow> js_number" where
  "js_times rnd (Finite x) k = rnd (x * k)"
| "js_times rnd NaN k = NaN"
| "js_times rnd PosInf k = (if k = 0 then NaN else if k > 0 then PosInf else NegInf)"
| "js_times rnd NegInf k = (if k = 0 then NaN else if k > 0 then NegInf else PosInf)"

fun js_plus :: "rounding \<Rightarrow> js_number \<Rightarrow> real \<Rightarrow> js_number" where
  "js_plus rnd (Finite x) k = rnd (x + k)"
| "js_plus rnd a k = a"

text \<open>
  \<open>Math.round\<close>: the nearest integer, a tie going up. It is exact on a finite double;
  \<open>NaN\<close> and infinities pass.
\<close>

fun Math_round :: "js_number \<Rightarrow> js_number" where
  "Math_round (Finite x) = Finite (of_int \<lfloor>x + 1 / 2\<rfloor>)"
| "Math_round a = a"

text \<open>\<open>a < c\<close> and \<open>a > c\<close> for a double \<open>a\<close> and a finite \<open>c\<close>: false when \<open>a\<close> is \<open>NaN\<close>.\<close>

fun js_less :: "js_number \<Rightarrow> real \<Rightarrow> bool" where
  "js_less (Finite x) c = (x < c)"
| "js_less NegInf c = True"
| "js_less a c = False"

fun js_greater :: "js_number \<Rightarrow> real \<Rightarrow> bool" where
  "js_greater (Finite x) c = (x > c)"
| "js_greater PosInf c = True"
| "js_greater a c = False"

subsection \<open>Strings\<close>

text \<open>
  A JavaScript string is a sequence of UTF-16 code units. \<open>units\<close> turns an ASCII
  literal of the source into such a sequence.
\<close>

type_synonym js_string = "nat list"

definition units :: "string \<Rightarrow> js_string" where
  "units s = map of_char s"

text \<open>
  White space and line terminators, as skipped by \<open>parseInt\<close> and by the conversion of a
  string to a number: TAB, LF, VT, FF, CR, SP, NBSP, U+1680, U+2000 to U+200A, U+2028,
  U+2029, U+202F, U+205F, U+3000 and U+FEFF.
\<close>

definition is_white_space :: "nat \<Rightarrow> bool" where
  "is_white_space c \<longleftrightarrow>
     c \<in> {9, 10, 11, 12, 13, 32, 160, 5760, 8232, 8233, 8239, 8287, 12288, 65279}
     \<or> (8192 \<le> c \<and> c \<le> 8202)"

definition digit_value :: "nat \<Rightarrow> nat option" where
  "digit_value c =
     (if 48 \<le> c \<and> c \<le> 57 then Some (c - 48)
      else if 97 \<le> c \<and> c \<le> 122 then Some (c - 87)
      else if 65 \<le> c \<and> c \<le> 90 then Some (c - 55)
      else None)"

definition is_digit :: "nat \<Rightarrow> nat \<Rightarrow> bool" where
  "is_digit radix c = (case digit_value c of None \<Rightarrow> False | Some d \<Rightarrow> d < radix)"

definition digits_value :: "nat \<Rightarrow> js_string \<Rightarrow> nat" where
  "digits_value radix z =
     foldl (\<lambda>acc c. case digit_value c of None \<Rightarrow> acc | Some d \<Rightarrow> acc * radix + d) 0 z"

text \<open>
  \<open>parseInt(s)\<close> without a radix: leading white space is dropped, then an optional sign,
  then an optional \<open>0x\<close> or \<open>0X\<close> (which selects radix 16, otherwise 10), then the longest
  run of digits is read. \<open>None\<close> is \<open>NaN\<close> (no digit). The value is given as the
  mathematical integer; the double that JavaScript returns is this integer rounded,
  which compares with the small integers of the handlers as the integer does.
\<close>

definition parseInt :: "js_string \<Rightarrow> int option" where
  "parseInt s =
     (let s1 = dropWhile is_white_space s;
          negative = (case s1 of [] \<Rightarrow> False | c # cs \<Rightarrow> c = 45);
          s2 = (case s1 of [] \<Rightarrow> [] | c # cs \<Rightarrow> if c = 43 \<or> c = 45 then cs else s1);
          hex = (take 2 s2 = units ''0x'' \<or> take 2 s2 = units ''0X'');
          radix = (if hex then 16 else 10);
          s3 = (if hex then drop 2 s2 else s2);
          z = takeWhile (is_digit radix) s3
      in if z = [] then None
         else Some ((if negative then - 1 else 1) * int (digits_value radix z)))"

text \<open>
  The conversion of a string to a number (\<open>StringToNumber\<close>), as the comparison
  operators apply it. White space is trimmed at both ends; the empty string is 0; then
  the whole string must be a numeric literal: \<open>0x\<close>, \<open>0o\<close> or \<open>0b\<close> with digits of that radix,
  or an optional sign followed by \<open>Infinity\<close> or by a decimal literal with optional
  fraction and exponent. Anything else is \<open>NaN\<close>. The exact value is rounded to a double.
\<close>

definition trim :: "js_string \<Rightarrow> js_string" where
  "trim s = rev (dropWhile is_white_space (rev (dropWhile is_white_space s)))"

definition all_digits :: "nat \<Rightarrow> js_string \<Rightarrow> bool" where
  "all_digits radix s \<longleftrightarrow> s \<noteq> [] \<and> list_all (is_digit radix) s"

text \<open>A prefix \<open>0x\<close>, \<open>0o\<close> or \<open>0b\<close> (either case): the radix and the rest.\<close>

definition radix_prefix :: "js_string \<Rightarrow> (nat \<times> js_string) option" where
  "radix_prefix s =
     (case s of
        z # c # rest \<Rightarrow>
          if z \<noteq> 48 then None
          else if c = 120 \<or> c = 88 then Some (16, rest)
          else if c = 111 \<or> c = 79 then Some (8, rest)
          else if c = 98 \<or> c = 66 then Some (2, rest)
          else None
      | _ \<Rightarrow> None)"

text \<open>
  An unsigned decimal literal: digits, an optional point with digits (digits on at least
  one side of it), an optional exponent part \<open>e\<close> or \<open>E\<close> with optional sign and digits.
\<close>

definition decimal_literal :: "js_string \<Rightarrow> real option" where
  "decimal_literal s =
     (let ip = takeWhile (is_digit 10) s;
          r1 = dropWhile (is_digit 10) s;
          fp = (case r1 of [] \<Rightarrow> [] | c # t \<Rightarrow> if c = 46 then takeWhile (is_digit 10) t else []);
          r2 = (case r1 of [] \<Rightarrow> [] | c # t \<Rightarrow> if c = 46 then dropWhile (is_digit 10) t else r1);
          mantissa = real (digits_value 10 ip) + real (digits_value 10 fp) / 10 ^ length fp
      in if ip = [] \<and> fp = [] then None
         else (case r2 of
                 [] \<Rightarrow> Some mantissa
               | c # t \<Rightarrow>
                   if c = 101 \<or> c = 69
                   then (let negative = (case t of [] \<Rightarrow> False | d # u \<Rightarrow> d = 45);
                             ds = (case t of [] \<Rightarrow> [] | d # u \<Rightarrow> if d = 43 \<or> d = 45 then u else t)
                         in if all_digits 10 ds
                            then Some (if negative then mantissa / 10 ^ digits_value 10 ds
                                       else mantissa * 10 ^ digits_value 10 ds)
                            else None)
                   else None))"

definition StringToNumber :: "rounding \<Rightarrow> js_string \<Rightarrow> js_number" where
  "StringToNumber rnd s =
     (let t = trim s
      in if t = [] then Finite 0
         else (case radix_prefix t of
                 Some (radix, ds) \<Rightarrow>
                   if all_digits radix ds then rnd (real (digits_value radix ds)) else NaN
               | None \<Rightarrow>
                   let negative = (case t of [] \<Rightarrow> False | c # cs \<Rightarrow> c = 45);
                       u = (case t of [] \<Rightarrow> [] | c # cs \<Rightarrow> if c = 43 \<or> c = 45 then cs else t)
                   in if u = units ''Infinity'' then (if negative then NegInf else PosInf)
                      else (case decimal_literal u of
                              None \<Rightarrow> NaN
                            | Some v \<Rightarrow> rnd (if negative then - v else v))))"

subsection \<open>JSON values\<close>

text \<open>
  What \<open>express.json\<close> parses a request body into, and what the query parser gives: null,
  booleans, numbers, strings, arrays, and objects with their own properties in order.
\<close>

datatype json =
    JNull
  | JBool bool
  | JNum js_number
  | JStr js_string
  | JArr "json list"
  | JObj "(js_string \<times> json) list"

text \<open>
  Converting a value to a string (in a template literal, or an array element on the way to
  a number) throws a \<open>TypeError\<close> exactly when it meets an object with an own property
  \<open>toString\<close>, which in parsed JSON is never a function. An array converts by joining
  the conversions of its elements.
\<close>

fun string_conversion_throws :: "json \<Rightarrow> bool" where
  "string_conversion_throws (JObj kvs) = (units ''toString'' \<in> set (map fst kvs))"
| "string_conversion_throws (JArr xs) = (\<exists>x \<in> set xs. string_conversion_throws x)"
| "string_conversion_throws v = False"

text \<open>The error Node raises there.\<close>

definition primitive_type_error :: thrown where
  "primitive_type_error = JsError ''TypeError'' ''Cannot convert object to primitive value''"

text \<open>
  \<open>ToNumber\<close> of a value, as \<open>v < c\<close> and \<open>v > c\<close> apply it to a left operand (the right one
  being a number): null is 0, booleans are 0 and 1, a string is converted as above, a
  plain object is \<open>NaN\<close>, and an array is converted through its string, which is empty
  for the empty array, the element's string for a single element, and contains a comma
  otherwise. The function is used on values whose string conversion does not throw.
\<close>

fun ToNumber :: "rounding \<Rightarrow> json \<Rightarrow> js_number" where
  "ToNumber rnd JNull = Finite 0"
| "ToNumber rnd (JBool b) = Finite (if b then 1 else 0)"
| "ToNumber rnd (JNum n) = n"
| "ToNumber rnd (JStr s) = StringToNumber rnd s"
| "ToNumber rnd (JObj kvs) = NaN"
| "ToNumber rnd (JArr []) = Finite 0"
| "ToNumber rnd (JArr [JNull]) = Finite 0"
| "ToNumber rnd (JArr [JBool b]) = NaN"
| "ToNumber rnd (JArr [JNum n]) = n"
| "ToNumber rnd (JArr [JStr s]) = StringToNumber rnd s"
| "ToNumber rnd (JArr [JObj kvs]) = NaN"
| "ToNumber rnd (JArr [JArr ys]) = ToNumber rnd (JArr ys)"
| "ToNumber rnd (JArr (x # y # zs)) = NaN"

text \<open>Truthiness, as \<open>!v\<close>, \<open>v || w\<close> and \<open>if (v)\<close> test it; an absent value is falsy.\<close>

fun truthy :: "json \<Rightarrow> bool" where
  "truthy JNull = False"
| "truthy (JBool b) = b"
| "truthy (JNum (Finite x)) = (x \<noteq> 0)"
| "truthy (JNum NaN) = False"
| "truthy (JNum a) = True"
| "truthy (JStr s) = (s \<noteq> [])"
| "truthy v = True"

definition present :: "json option \<Rightarrow> bool" where
  "present v = (case v of None \<Rightarrow> False | Some x \<Rightarrow> truthy x)"

section \<open>The iterative AI fix route (server/routes.ts)\<close>

subsection \<open>Data\<close>

text \<open>
  The fields of \<open>req.body\<close> that the handler reads. The body is untyped JSON: a field
  holds any JSON value, or is absent (\<open>None\<close>).
\<close>

record request_body =
  body_targetScore :: "json option"
  body_maxIterations :: "json option"
  body_minImprovementThreshold :: "json option"
  body_fixTypes :: "json option"
  body_maxChangesPerIteration :: "json option"
  body_skipBackup :: "json option"

text \<open>
  The options object handed to \<open>aiFixService.iterativelyFixUntilAcceptable\<close>: the values of
  the body as they are, or the defaults.
\<close>

record fix_options =
  opt_targetScore :: json
  opt_maxIterations :: json
  opt_minImprovementThreshold :: json
  opt_fixTypes :: "json option"
  opt_maxChangesPerIteration :: json
  opt_skipBackup :: json

text \<open>
  Modelled from the spec: the config of the controller's contract, with the types the
  specification gives its fields. The controller itself is missing from the sources.
\<close>

record config =
  targetScore :: real
  maxIterations :: int
  minImprovementThreshold :: real
  fixTypes :: "string list option"
  maxChangesPerIteration :: int
  skipBackup :: bool

datatype stopped_reason = target_reached | max_iterations | no_improvement | error

record iteration_record =
  iterationNumber :: nat
  scoreBefore :: real
  scoreAfter :: real
  improvement :: real
  fixesAttempted :: nat
  fixesSuccessful :: nat
  analysisTime :: real
  fixTime :: real
  timestamp :: nat

text \<open>One per-issue outcome (\<open>f.type\<close>, \<open>f.success\<close>, \<open>f.error\<close> in the source).\<close>

record fix_outcome =
  fix_type :: string
  fix_success :: bool
  fix_error :: "string option"

text \<open>
  The result of a remediation run. Its target score field is \<open>targetScore\<close> as in the
  source; the config field of the same name is written \<open>config.targetScore\<close>.
\<close>

record remediation_result =
  initialScore :: real
  finalScore :: real
  scoreImprovement :: real
  targetScore :: real
  iterationsCompleted :: nat
  stoppedReason :: stopped_reason
  iterations :: "iteration_record list"
  fixesApplied :: "fix_outcome list"
  errors :: "string list"

text \<open>What the service returns to the route: the result and its presentation fields.\<close>

record service_result = remediation_result +
  success :: bool
  message :: string
  stats :: "(string \<times> real) list"
  detailedLog :: "string list"

subsection \<open>The response\<close>

record iteration_view =
  view_iteration :: nat
  view_scoreBefore :: real
  view_scoreAfter :: real
  view_improvement :: real
  view_fixesApplied :: nat
  view_duration :: js_number
  view_timestamp :: nat

record stats_view =
  serviceStats :: "(string \<times> real) list"
  scoreProgressionPercentage :: js_number
  averageImprovementPerIteration :: js_number
  totalProcessingTime :: js_number

record applied_view =
  totalFixesApplied :: nat
  imagesAltUpdated :: nat
  metaDescriptionsUpdated :: nat
  titleTagsUpdated :: nat
  headingStructureFixed :: nat

record payload =
  out_success :: bool
  out_message :: string
  out_initialScore :: real
  out_finalScore :: real
  out_scoreImprovement :: real
  out_targetScore :: real
  targetReached :: bool
  out_iterationsCompleted :: nat
  out_stoppedReason :: stopped_reason
  out_maxIterations :: json
  out_iterations :: "iteration_view list"
  out_stats :: stats_view
  applied :: applied_view
  out_fixes :: "fix_outcome list"
  out_errors :: "string list"
  out_detailedLog :: "string list"

datatype fix_body =
    MessageBody string
  | MessageErrorBody string string
  | FailureBody string string
  | ResultBody payload

text \<open>The duration is the number printed in \<open>`${iter.fixTime + iter.analysisTime}s`\<close>.\<close>

definition iteration_to_view :: "rounding \<Rightarrow> iteration_record \<Rightarrow> iteration_view" where
  "iteration_to_view rnd iter =
     \<lparr> view_iteration = iterationNumber iter,
       view_scoreBefore = scoreBefore iter,
       view_scoreAfter = scoreAfter iter,
       view_improvement = improvement iter,
       view_fixesApplied = fixesSuccessful iter,
       view_duration = rnd (fixTime iter + analysisTime iter),
       view_timestamp = timestamp iter \<rparr>"

text \<open>
  The computed statistics, together with the divisor of every division that is carried
  out, in order. The list of divisors is a record of the evaluation, not part of the
  reply.
\<close>

definition response_stats_traced :: "rounding \<Rightarrow> service_result \<Rightarrow> stats_view \<times> real list" where
  "response_stats_traced rnd result =
     (let progression =
            (if initialScore result > 0
             then (Math_round (js_times rnd (js_div rnd (scoreImprovement result) (initialScore result)) 100),
                   [initialScore result])
             else (Finite 0, []));
          average =
            (if iterationsCompleted result > 0
             then (js_div rnd (scoreImprovement result) (real (iterationsCompleted result)),
                   [real (iterationsCompleted result)])
             else (Finite 0, []))
      in (\<lparr> serviceStats = stats result,
            scoreProgressionPercentage = fst progression,
            averageImprovementPerIteration = fst average,
            totalProcessingTime =
              foldl (\<lambda>total iter. js_plus rnd (js_plus rnd total (fixTime iter)) (analysisTime iter))
                    (Finite 0) (iterations result) \<rparr>,
          snd progression @ snd average))"

definition response_stats :: "rounding \<Rightarrow> service_result \<Rightarrow> stats_view" where
  "response_stats rnd result = fst (response_stats_traced rnd result)"

definition response_applied :: "service_result \<Rightarrow> applied_view" where
  "response_applied result =
     \<lparr> totalFixesApplied = length (filter fix_success (fixesApplied result)),
       imagesAltUpdated =
         length (filter (\<lambda>f. fix_type f = ''missing_alt_text'' \<and> fix_success f) (fixesApplied result)),
       metaDescriptionsUpdated =
         length (filter (\<lambda>f. fix_type f = ''missing_meta_description'' \<and> fix_success f) (fixesApplied result)),
       titleTagsUpdated =
         length (filter (\<lambda>f. fix_type f = ''poor_title_tag'' \<and> fix_success f) (fixesApplied result)),
       headingStructureFixed =
         length (filter (\<lambda>f. fix_type f = ''heading_structure'' \<and> fix_success f) (fixesApplied result)) \<rparr>"

text \<open>
  The object passed to \<open>res.json\<close> on success. The \<open>recommendations\<close> strings, built from
  the same result by \<open>generateIterativeFixRecommendations\<close>, are left out of the model.
\<close>

definition response_payload :: "rounding \<Rightarrow> service_result \<Rightarrow> json \<Rightarrow> payload" where
  "response_payload rnd result maxIter =
     \<lparr> out_success = success result,
       out_message = message result,
       out_initialScore = initialScore result,
       out_finalScore = finalScore result,
       out_scoreImprovement = scoreImprovement result,
       out_targetScore = targetScore result,
       targetReached = (finalScore result \<ge> targetScore result),
       out_iterationsCompleted = iterationsCompleted result,
       out_stoppedReason = stoppedReason result,
       out_maxIterations = maxIter,
       out_iterations = map (iteration_to_view rnd) (iterations result),
       out_stats = response_stats rnd result,
       applied = response_applied result,
       out_fixes = fixesApplied result,
       out_errors = errors result,
       out_detailedLog = detailedLog result \<rparr>"

subsection \<open>The handler\<close>

text \<open>The \<open>catch\<close> clause of the route: the thrown value decides status and message.\<close>

definition catch_reply :: "thrown \<Rightarrow> fix_body reply" where
  "catch_reply e =
     (case e of
        NonError \<Rightarrow> Reply 500 (FailureBody ''Failed to complete iterative AI fixes'' ''IterativeAIFixError'')
      | JsError name msg \<Rightarrow>
          if js_includes msg ''No SEO analysis found''
          then Reply 400 (FailureBody ''Please run SEO analysis first before applying iterative AI fixes'' name)
          else if js_includes msg ''access denied''
          then Reply 403 (FailureBody msg name)
          else if js_includes msg ''Cannot access website''
          then Reply 400 (FailureBody
            ''Cannot access website for analysis. Please check if the website is online and accessible.'' name)
          else Reply 500 (FailureBody msg name))"

text \<open>
  The destructured request body, \<open>const { targetScore = 85, maxIterations = 5, ... } = req.body\<close>.
  The handler validates these values and passes exactly them on to the service.
\<close>

definition request_options :: "request_body \<Rightarrow> fix_options" where
  "request_options b =
     \<lparr> opt_targetScore = js_default (JNum (Finite 85)) (body_targetScore b),
       opt_maxIterations = js_default (JNum (Finite 5)) (body_maxIterations b),
       opt_minImprovementThreshold = js_default (JNum (Finite 2)) (body_minImprovementThreshold b),
       opt_fixTypes = body_fixTypes b,
       opt_maxChangesPerIteration = js_default (JNum (Finite 20)) (body_maxChangesPerIteration b),
       opt_skipBackup = js_default (JBool False) (body_skipBackup b) \<rparr>"

text \<open>The two range tests, \<open>v < 50 || v > 100\<close> and \<open>v < 1 || v > 10\<close>, on an untyped value.\<close>

definition target_out_of_range :: "rounding \<Rightarrow> json \<Rightarrow> bool" where
  "target_out_of_range rnd v \<longleftrightarrow> js_less (ToNumber rnd v) 50 \<or> js_greater (ToNumber rnd v) 100"

definition iterations_out_of_range :: "rounding \<Rightarrow> json \<Rightarrow> bool" where
  "iterations_out_of_range rnd v \<longleftrightarrow> js_less (ToNumber rnd v) 1 \<or> js_greater (ToNumber rnd v) 10"

text \<open>
  \<open>POST /api/user/websites/:id/iterative-ai-fix\<close>. The two collaborators are parameters:
  \<open>getUserWebsite\<close> is the outcome of \<open>storage.getUserWebsite(websiteId, userId)\<close> (it
  throws, finds nothing, or finds the website) and \<open>service\<close> is
  \<open>aiFixService.iterativelyFixUntilAcceptable\<close> for this website and user (it throws or
  returns a result). The handler returns its reply and the list of option objects with
  which it invoked the service, in order. It runs after the \<open>requireAuth\<close> middleware,
  so the user is known. Its first statement after the destructuring logs the target
  score and the iteration limit in a template literal, which converts both to strings;
  everything is inside the \<open>try\<close> block.
\<close>

definition iterative_ai_fix ::
  "rounding \<Rightarrow> (thrown + 'w option) \<Rightarrow> (fix_options \<Rightarrow> thrown + service_result) \<Rightarrow> request_body
     \<Rightarrow> fix_body reply \<times> fix_options list" where
  "iterative_ai_fix rnd getUserWebsite service b =
     (let opts = request_options b
      in if string_conversion_throws (opt_targetScore opts) \<or>
            string_conversion_throws (opt_maxIterations opts)
         then (catch_reply primitive_type_error, [])
         else
           (case getUserWebsite of
              Inl e \<Rightarrow> (catch_reply e, [])
            | Inr None \<Rightarrow> (Reply 404 (MessageBody ''Website not found or access denied''), [])
            | Inr (Some website) \<Rightarrow>
                if target_out_of_range rnd (opt_targetScore opts)
                then (Reply 400 (MessageErrorBody ''Target score must be between 50 and 100''
                                   ''INVALID_TARGET_SCORE''), [])
                else if iterations_out_of_range rnd (opt_maxIterations opts)
                then (Reply 400 (MessageErrorBody ''Max iterations must be between 1 and 10''
                                   ''INVALID_MAX_ITERATIONS''), [])
                else (case service opts of
                        Inl e \<Rightarrow> (catch_reply e, [opts])
                      | Inr result \<Rightarrow>
                          (Reply 200 (ResultBody (response_payload rnd result (opt_maxIterations opts))),
                           [opts]))))"

text \<open>
  A request that gets past the handler's own checks: both logged values convert to
  strings, and neither range test rejects.
\<close>

definition passes_validation :: "rounding \<Rightarrow> request_body \<Rightarrow> bool" where
  "passes_validation rnd b \<longleftrightarrow>
     \<not> string_conversion_throws (opt_targetScore (request_options b)) \<and>
     \<not> string_conversion_throws (opt_maxIterations (request_options b)) \<and>
     \<not> target_out_of_range rnd (opt_targetScore (request_options b)) \<and>
     \<not> iterations_out_of_range rnd (opt_maxIterations (request_options b))"

section \<open>The Remediation Controller\<close>

text \<open>
  Modelled from the spec: \<open>aiFixService.iterativelyFixUntilAcceptable\<close> lives in
  \<open>server/services/ai-fix-service\<close>, which is not among the sources; the route only
  imports it. Every definition of this section follows the specification of the
  Remediation Controller (data model, contract, algorithm steps 1 to 4, edge policy,
  failure semantics) and says which sentence it renders.
\<close>

subsection \<open>Collaborators\<close>

text \<open>
  Modelled from the spec: the answer of \<open>Analyzer.analyze\<close>, a score and an ordered
  sequence of issues, each with a type and a detail. The service that produces it is
  missing from the sources.
\<close>

record issue =
  issue_type :: string
  issue_detail :: string

record analysis =
  score :: real
  issues :: "issue list"

text \<open>
  Modelled from the spec: the collaborator interfaces of the missing service.
  The Analyzer and the Fix Applier are external. They act on the outside world (the site
  and the clock), a state of type \<open>'s\<close> that the controller threads through its calls.
  A call either fails with a message or returns its answer and the world after it.
  \<open>applyFixes\<close> takes the issues, the optional allowlist of fix types and the cap on
  changes. \<open>hasAnalysis\<close> tells whether a prior SEO analysis exists for the site, and
  \<open>now\<close> reads the clock in seconds.
\<close>

record 's collaborators =
  hasAnalysis :: "'s \<Rightarrow> bool"
  analyze :: "'s \<Rightarrow> string + (analysis \<times> 's)"
  applyFixes :: "'s \<Rightarrow> issue list \<Rightarrow> string list option \<Rightarrow> int \<Rightarrow> string + (fix_outcome list \<times> 's)"
  now :: "'s \<Rightarrow> nat"

text \<open>The collaborator calls a run makes are logged, in order.\<close>

datatype call = AnalyzerCall | FixApplierCall

text \<open>
  Modelled from the spec: the error taxonomy of the missing service, as far as it ends a
  run without a result. \<open>FixApplicationError\<close> is per issue and only recorded.
\<close>

datatype run_error = InvalidConfigError | NoAnalysisError | SiteUnreachableError string

subsection \<open>State of a run\<close>

text \<open>
  Modelled from the spec: the in-progress \<open>RemediationResult\<close> that the missing
  controller builds, together with the current score and issues, the world and the call
  log.
\<close>

record 's loop_state =
  world :: 's
  calls :: "call list"
  st_initialScore :: real
  currentScore :: real
  currentIssues :: "issue list"
  st_iterationsCompleted :: nat
  st_iterations :: "iteration_record list"
  st_fixesApplied :: "fix_outcome list"
  st_errors :: "string list"

text \<open>
  Modelled from the spec: in the missing controller the score is clamped to [0,100] at
  every read from the Analyzer, regardless of what the Analyzer returns.
\<close>

definition clamp_score :: "real \<Rightarrow> real" where
  "clamp_score x = max 0 (min 100 x)"

text \<open>
  Modelled from the spec: the valid ranges of the missing controller's config,
  \<open>targetScore\<close> in [50,100] and \<open>maxIterations\<close> in [1,10].
\<close>

definition valid_config :: "config \<Rightarrow> bool" where
  "valid_config cfg \<longleftrightarrow>
     50 \<le> config.targetScore cfg \<and> config.targetScore cfg \<le> 100 \<and>
     1 \<le> maxIterations cfg \<and> maxIterations cfg \<le> 10"

text \<open>
  Modelled from the spec: in the missing controller a per-issue failure is recorded in
  \<open>errors\<close> and is not fatal. These are the messages of the failed outcomes of one Fix
  Applier call.
\<close>

definition issue_errors :: "fix_outcome list \<Rightarrow> string list" where
  "issue_errors outcomes =
     concat (map (\<lambda>f. if fix_success f then []
                       else (case fix_error f of None \<Rightarrow> [] | Some e \<Rightarrow> [e])) outcomes)"

text \<open>
  Modelled from the spec: the \<open>RemediationResult\<close> the missing controller returns when
  it stops for the given reason; the final score is the current score.
\<close>

definition finish :: "config \<Rightarrow> 's loop_state \<Rightarrow> stopped_reason \<Rightarrow> remediation_result" where
  "finish cfg st reason =
     \<lparr> initialScore = st_initialScore st,
       finalScore = currentScore st,
       scoreImprovement = currentScore st - st_initialScore st,
       targetScore = config.targetScore cfg,
       iterationsCompleted = st_iterationsCompleted st,
       stoppedReason = reason,
       iterations = st_iterations st,
       fixesApplied = st_fixesApplied st,
       errors = st_errors st \<rparr>"

subsection \<open>One pass of the loop\<close>

datatype 's pass = Continue "'s loop_state" | Stop "'s loop_state" stopped_reason

text \<open>
  Modelled from the spec: steps a to h of the missing controller's loop, and step 4 for
  a failing call. (a) record the score before; (b) run the Fix Applier on the current
  issues, restricted to \<open>fixTypes\<close> and capped at \<open>maxChangesPerIteration\<close>, and collect
  the outcomes; (c) run the Analyzer again; (d) append the iteration record with its
  timings; (e) compute the improvement and update the current score; (f) stop with
  \<open>target_reached\<close> when the new score reaches the target; (g) else stop with
  \<open>no_improvement\<close> when the improvement is below the threshold; (h) else continue.
  A failing Fix Applier or Analyzer call stops the loop with \<open>error\<close>, its message
  added to \<open>errors\<close> and no iteration record appended.
\<close>

definition iteration :: "config \<Rightarrow> 's collaborators \<Rightarrow> 's loop_state \<Rightarrow> 's pass" where
  "iteration cfg collab st =
     (let sBefore = currentScore st in
      case applyFixes collab (world st) (currentIssues st) (fixTypes cfg) (maxChangesPerIteration cfg) of
        Inl msg \<Rightarrow>
          Stop (st\<lparr> calls := calls st @ [FixApplierCall],
                    st_errors := st_errors st @ [msg] \<rparr>) error
      | Inr (outcomes, w1) \<Rightarrow>
          let st1 = st\<lparr> world := w1,
                        calls := calls st @ [FixApplierCall],
                        st_fixesApplied := st_fixesApplied st @ outcomes,
                        st_errors := st_errors st @ issue_errors outcomes \<rparr>
          in (case analyze collab w1 of
                Inl msg \<Rightarrow>
                  Stop (st1\<lparr> calls := calls st1 @ [AnalyzerCall],
                             st_errors := st_errors st1 @ [msg] \<rparr>) error
              | Inr (a, w2) \<Rightarrow>
                  let sAfter = clamp_score (score a);
                      delta = sAfter - sBefore;
                      record_n = \<lparr> iterationNumber = st_iterationsCompleted st + 1,
                                   scoreBefore = sBefore,
                                   scoreAfter = sAfter,
                                   improvement = delta,
                                   fixesAttempted = length outcomes,
                                   fixesSuccessful = length (filter fix_success outcomes),
                                   analysisTime = real (now collab w2) - real (now collab w1),
                                   fixTime = real (now collab w1) - real (now collab (world st)),
                                   timestamp = now collab w2 \<rparr>;
                      st2 = st1\<lparr> world := w2,
                                 calls := calls st1 @ [AnalyzerCall],
                                 currentScore := sAfter,
                                 currentIssues := issues a,
                                 st_iterationsCompleted := st_iterationsCompleted st + 1,
                                 st_iterations := st_iterations st @ [record_n] \<rparr>
                  in if sAfter \<ge> config.targetScore cfg then Stop st2 target_reached
                     else if delta < minImprovementThreshold cfg then Stop st2 no_improvement
                     else Continue st2))"

subsection \<open>The loop and the run\<close>

text \<open>
  Modelled from the spec: the loop condition of the missing controller,
  \<open>iterationsCompleted < maxIterations AND currentScore < targetScore\<close>.
\<close>

definition loop_guard :: "config \<Rightarrow> 's loop_state \<Rightarrow> bool" where
  "loop_guard cfg st \<longleftrightarrow>
     int (st_iterationsCompleted st) < maxIterations cfg \<and> currentScore st < config.targetScore cfg"

text \<open>
  Modelled from the spec: step 2 and step 3 of the missing controller. The loop repeats
  passes while the condition holds. When it exits by the condition, the reason is
  \<open>max_iterations\<close> if the target has not been reached, and \<open>target_reached\<close> if the score
  already meets the target (then no pass has run). The result comes with the call log.
\<close>

function loop :: "config \<Rightarrow> 's collaborators \<Rightarrow> 's loop_state \<Rightarrow> remediation_result \<times> call list" where
  "loop cfg collab st =
     (if loop_guard cfg st
      then (case iteration cfg collab st of
              Continue st' \<Rightarrow> loop cfg collab st'
            | Stop st' reason \<Rightarrow> (finish cfg st' reason, calls st'))
      else (finish cfg st (if currentScore st \<ge> config.targetScore cfg
                           then target_reached else max_iterations), calls st))"
  by pat_completeness auto
termination
  by (relation "measure (\<lambda>(cfg, collab, st). nat (maxIterations cfg - int (st_iterationsCompleted st)))")
     (auto simp: loop_guard_def iteration_def Let_def split: sum.splits prod.splits if_splits)

declare loop.simps [simp del]

text \<open>
  Modelled from the spec: the state of the missing controller after step 1, the first
  analysis, which gives the initial score.
\<close>

definition initial_state :: "analysis \<Rightarrow> 's \<Rightarrow> 's loop_state" where
  "initial_state a w =
     \<lparr> world = w,
       calls = [AnalyzerCall],
       st_initialScore = clamp_score (score a),
       currentScore = clamp_score (score a),
       currentIssues = issues a,
       st_iterationsCompleted = 0,
       st_iterations = [],
       st_fixesApplied = [],
       st_errors = [] \<rparr>"

text \<open>
  Modelled from the spec: \<open>run(siteId, config)\<close> of the missing controller, giving the
  outcome and the collaborator calls made, in order. Config and precondition errors abort
  before any work (\<open>InvalidConfigError\<close>, \<open>NoAnalysisError\<close>). A failure of the first
  analysis, step 1, comes before the loop and before any result exists; it propagates
  from the Analyzer as \<open>SiteUnreachableError\<close>. Failures inside the loop end in a
  result, see \<open>iteration\<close>.
\<close>

definition run :: "'s collaborators \<Rightarrow> 's \<Rightarrow> config \<Rightarrow> (run_error + remediation_result) \<times> call list" where
  "run collab w cfg =
     (if \<not> valid_config cfg then (Inl InvalidConfigError, [])
      else if \<not> hasAnalysis collab w then (Inl NoAnalysisError, [])
      else (case analyze collab w of
              Inl msg \<Rightarrow> (Inl (SiteUnreachableError msg), [AnalyzerCall])
            | Inr (a, w1) \<Rightarrow>
                (case loop cfg collab (initial_state a w1) of
                   (r, cs) \<Rightarrow> (Inr r, cs))))"

subsection \<open>Progress of a run\<close>

text \<open>
  The state after \<open>k\<close> further passes that all completed and asked to continue, if the
  loop gets that far: \<open>None\<close> when the loop condition fails or a pass stops earlier.
\<close>

fun completed_passes :: "config \<Rightarrow> 's collaborators \<Rightarrow> nat \<Rightarrow> 's loop_state \<Rightarrow> 's loop_state option" where
  "completed_passes cfg collab 0 st = Some st"
| "completed_passes cfg collab (Suc k) st =
     (if loop_guard cfg st
      then (case iteration cfg collab st of
              Continue st' \<Rightarrow> completed_passes cfg collab k st'
            | Stop st' reason \<Rightarrow> None)
      else None)"

text \<open>
  An unrecoverable error in the pass that starts in state \<open>st\<close>: the Fix Applier call
  fails, or it returns and the Analyzer call after it fails.
\<close>

definition pass_fails :: "config \<Rightarrow> 's collaborators \<Rightarrow> 's loop_state \<Rightarrow> bool" where
  "pass_fails cfg collab st =
     (case applyFixes collab (world st) (currentIssues st) (fixTypes cfg) (maxChangesPerIteration cfg) of
        Inl msg \<Rightarrow> True
      | Inr (outcomes, w1) \<Rightarrow> (case analyze collab w1 of Inl msg \<Rightarrow> True | Inr x \<Rightarrow> False))"

text \<open>The invariant of the loop, and what it gives for the result.\<close>

definition state_ok :: "config \<Rightarrow> 's loop_state \<Rightarrow> bool" where
  "state_ok cfg st \<longleftrightarrow>
     st_iterationsCompleted st = length (st_iterations st) \<and>
     int (length (st_iterations st)) \<le> maxIterations cfg \<and>
     currentScore st = (if st_iterations st = [] then st_initialScore st
                        else scoreAfter (last (st_iterations st)))"

definition result_ok :: "config \<Rightarrow> remediation_result \<Rightarrow> bool" where
  "result_ok cfg r \<longleftrightarrow>
     iterationsCompleted r = length (iterations r) \<and>
     int (length (iterations r)) \<le> maxIterations cfg \<and>
     finalScore r = (if iterations r = [] then initialScore r
                     else scoreAfter (last (iterations r))) \<and>
     targetScore r = config.targetScore cfg \<and>
     (stoppedReason r = target_reached \<longrightarrow> finalScore r \<ge> config.targetScore cfg) \<and>
     (stoppedReason r = no_improvement \<longrightarrow>
        iterations r \<noteq> [] \<and>
        improvement (last (iterations r)) < minImprovementThreshold cfg \<and>
        improvement (last (iterations r)) =
          scoreAfter (last (iterations r)) - scoreBefore (last (iterations r)))"

subsection \<open>The service as the route calls it\<close>


section \<open>The Search Console routes (server/routes/gsc.routes.ts)\<close>

text \<open>
  Both routes are registered as \<open>requireAuth, validateAccountId, handler\<close> on a router
  that first applies a rate limiter and the sanitization middleware. The rate limiter,
  the sanitization middleware and \<open>requireAuth\<close> are not among the sources: the model
  starts from the request as they pass it on, with \<open>validateAccountId\<close>. \<open>req.body\<close> and
  \<open>req.query\<close> are objects, of which the model keeps the properties that are read.
\<close>

subsection \<open>The account id middleware\<close>

text \<open>
  \<open>InputSanitizer.sanitizeAccountId\<close> is not among the sources; what it answers for a
  value is a parameter: invalid with an error value, or valid with the sanitized id.
\<close>

datatype sanitized = Invalid json | Valid json

datatype id_check = IdMissing | IdRejected json | IdAccepted "json option" "json option"

text \<open>
  \<open>validateAccountId\<close>, on \<open>req.body.accountId\<close> and \<open>req.query.accountId\<close>. It answers the
  request itself when no id is given or the sanitizer rejects it; otherwise it replaces
  each of the two that is truthy by the sanitized id and calls the handler.
\<close>

definition validateAccountId :: "(json \<Rightarrow> sanitized) \<Rightarrow> json option \<Rightarrow> json option \<Rightarrow> id_check" where
  "validateAccountId sanitize bodyId queryId =
     (case (if present bodyId then bodyId else queryId) of
        None \<Rightarrow> IdMissing
      | Some accountId \<Rightarrow>
          if \<not> truthy accountId then IdMissing
          else (case sanitize accountId of
                  Invalid e \<Rightarrow> IdRejected e
                | Valid s \<Rightarrow>
                    IdAccepted (if present bodyId then Some s else bodyId)
                               (if present queryId then Some s else queryId)))"

text \<open>
  A value thrown by the storage service or by a Google client, as far as the handlers
  look at it: its \<open>code\<close> property, if it has one.
\<close>

datatype api_error = ApiError (error_code: "json option")

subsection \<open>Submitting a URL for indexing\<close>

record index_request =
  ib_accountId :: "json option"
  iq_accountId :: "json option"
  ib_url :: "json option"
  ib_type :: "json option"

record quota =
  used :: int
  limit :: int

text \<open>
  The storage service and the Indexing API are external; what each call answers is a
  parameter. A call throws or returns; \<open>publish\<close> returns the notification time of the
  answer, if there is one.
\<close>

record 'a index_env =
  getGscQuotaUsage :: "json option \<Rightarrow> api_error + quota"
  getGscAccountWithCredentials :: "json option \<Rightarrow> api_error + 'a option"
  publish :: "json option \<Rightarrow> json \<Rightarrow> api_error + string option"
  incrementGscQuotaUsage :: "json option \<Rightarrow> json option \<Rightarrow> api_error + unit"

text \<open>The external calls that change something outside, in the order they are made.\<close>

datatype index_effect = PublishCall "json option" json | QuotaIncrement "json option" "json option"

datatype index_reply_body =
    IndexError string
  | IndexValidationError json
  | IndexSuccess "string option" "json option"

definition quota_exceeded_reply :: "index_reply_body reply" where
  "quota_exceeded_reply = Reply 429 (IndexError ''Daily quota exceeded (200 URLs/day)'')"

definition index_failed_reply :: "index_reply_body reply" where
  "index_failed_reply = Reply 500 (IndexError ''Failed to submit URL for indexing'')"

text \<open>
  The inner \<open>catch\<close> around the publish call and the quota increment: an error whose
  \<open>code\<close> is the number 429 is answered with the quota message, any other is thrown on to
  the outer \<open>catch\<close>.
\<close>

definition index_catch :: "api_error \<Rightarrow> index_reply_body reply" where
  "index_catch e =
     (if error_code e = Some (JNum (Finite 429)) then quota_exceeded_reply else index_failed_reply)"

text \<open>The requested type, \<open>const { accountId, url, type = 'URL_UPDATED' } = req.body\<close>.\<close>

definition index_type :: "index_request \<Rightarrow> json" where
  "index_type r = js_default (JStr (units ''URL_UPDATED'')) (ib_type r)"

text \<open>
  The first statement of the handler logs the url and the type in a template literal,
  which converts both to strings (an absent url prints as \<open>undefined\<close>). This is when
  that statement throws.
\<close>

definition index_log_throws :: "index_request \<Rightarrow> bool" where
  "index_log_throws r \<longleftrightarrow>
     (case ib_url r of None \<Rightarrow> False | Some u \<Rightarrow> string_conversion_throws u) \<or>
     string_conversion_throws (index_type r)"

text \<open>
  The handler of \<open>POST /index\<close>; all of it is inside the \<open>try\<close> block, whose \<open>catch\<close>
  answers with status 500.
\<close>

definition index_handler ::
  "'a index_env \<Rightarrow> index_request \<Rightarrow> index_reply_body reply \<times> index_effect list" where
  "index_handler env r =
     (let accountId = ib_accountId r; url = ib_url r; type = index_type r
      in if index_log_throws r then (index_failed_reply, [])
         else if type \<noteq> JStr (units ''URL_UPDATED'') \<and> type \<noteq> JStr (units ''URL_DELETED'')
         then (Reply 400 (IndexError ''Invalid type. Must be URL_UPDATED or URL_DELETED''), [])
         else (case getGscQuotaUsage env accountId of
                 Inl e \<Rightarrow> (index_failed_reply, [])
               | Inr q \<Rightarrow>
                   if used q \<ge> limit q then (quota_exceeded_reply, [])
                   else (case getGscAccountWithCredentials env accountId of
                           Inl e \<Rightarrow> (index_failed_reply, [])
                         | Inr None \<Rightarrow>
                             (Reply 401 (IndexError ''Account not found or not authenticated''), [])
                         | Inr (Some account) \<Rightarrow>
                             (case publish env url type of
                                Inl e \<Rightarrow> (index_catch e, [PublishCall url type])
                              | Inr notifyTime \<Rightarrow>
                                  (case incrementGscQuotaUsage env accountId url of
                                     Inl e \<Rightarrow>
                                       (index_catch e,
                                        [PublishCall url type, QuotaIncrement accountId url])
                                   | Inr u \<Rightarrow>
                                       (Reply 200 (IndexSuccess notifyTime url),
                                        [PublishCall url type, QuotaIncrement accountId url]))))))"

text \<open>The route: \<open>validateAccountId\<close>, then the handler on the request it passes on.\<close>

definition index_route ::
  "(json \<Rightarrow> sanitized) \<Rightarrow> 'a index_env \<Rightarrow> index_request
     \<Rightarrow> index_reply_body reply \<times> index_effect list" where
  "index_route sanitize env r =
     (case validateAccountId sanitize (ib_accountId r) (iq_accountId r) of
        IdMissing \<Rightarrow> (Reply 400 (IndexError ''Account ID is required''), [])
      | IdRejected e \<Rightarrow> (Reply 400 (IndexValidationError e), [])
      | IdAccepted bodyId queryId \<Rightarrow>
          index_handler env (r\<lparr> ib_accountId := bodyId, iq_accountId := queryId \<rparr>))"

subsection \<open>Performance data\<close>

record perf_request =
  pb_accountId :: "json option"
  pq_accountId :: "json option"
  pq_siteUrl :: "json option"
  pq_days :: "json option"

record sc_row =
  row_keys :: "string list option"
  row_clicks :: "real option"
  row_impressions :: "real option"
  row_ctr :: "real option"
  row_position :: "real option"

record perf_point =
  point_date :: "string option"
  clicks :: real
  impressions :: real
  ctr :: real
  position :: real

record gsc_property =
  property_id :: string
  site_url :: js_string

record 'a perf_env =
  perf_account :: "json option \<Rightarrow> api_error + 'a option"
  searchanalytics_query :: "js_string \<Rightarrow> int \<Rightarrow> api_error + sc_row list option"
  getGscProperties :: "json option \<Rightarrow> api_error + gsc_property list"
  savePerformanceData :: "string \<Rightarrow> perf_point list \<Rightarrow> api_error + unit"

datatype perf_effect = SearchConsoleQuery js_string int | SaveData string

datatype perf_reply_body =
    PerfError string
  | PerfValidationError json
  | PerfData "perf_point list"

definition perf_failed_reply :: "perf_reply_body reply" where
  "perf_failed_reply = Reply 500 (PerfError ''Failed to fetch performance data'')"

definition row_to_point :: "sc_row \<Rightarrow> perf_point" where
  "row_to_point row =
     \<lparr> point_date = (case row_keys row of None \<Rightarrow> None | Some [] \<Rightarrow> None | Some (k # ks) \<Rightarrow> Some k),
       clicks = js_default 0 (row_clicks row),
       impressions = js_default 0 (row_impressions row),
       ctr = js_default 0 (row_ctr row),
       position = js_default 0 (row_position row) \<rparr>"

text \<open>\<open>parseInt(typeof days === 'string' ? days : '28')\<close>, \<open>days\<close> defaulting to \<open>'28'\<close>.\<close>

definition days_number :: "perf_request \<Rightarrow> int option" where
  "days_number q =
     parseInt (case js_default (JStr (units ''28'')) (pq_days q) of
                 JStr d \<Rightarrow> d
               | _ \<Rightarrow> units ''28'')"

text \<open>
  The handler of \<open>GET /performance\<close>. It logs the site URL in a template literal first,
  inside the \<open>try\<close> block.
\<close>

definition performance_handler ::
  "'a perf_env \<Rightarrow> perf_request \<Rightarrow> perf_reply_body reply \<times> perf_effect list" where
  "performance_handler env q =
     (case pq_siteUrl q of
        None \<Rightarrow> (Reply 400 (PerfError ''Site URL is required''), [])
      | Some (JStr siteUrl) \<Rightarrow>
          if siteUrl = [] then (Reply 400 (PerfError ''Site URL is required''), [])
          else
            (case days_number q of
               None \<Rightarrow> (Reply 400 (PerfError ''Days must be between 1 and 90''), [])
             | Some daysNum \<Rightarrow>
                 if daysNum < 1 \<or> daysNum > 90
                 then (Reply 400 (PerfError ''Days must be between 1 and 90''), [])
                 else (case perf_account env (pq_accountId q) of
                         Inl e \<Rightarrow> (perf_failed_reply, [])
                       | Inr None \<Rightarrow>
                           (Reply 401 (PerfError ''Account not found or not authenticated''), [])
                       | Inr (Some account) \<Rightarrow>
                           (case searchanalytics_query env siteUrl daysNum of
                              Inl e \<Rightarrow> (perf_failed_reply, [SearchConsoleQuery siteUrl daysNum])
                            | Inr rows \<Rightarrow>
                                let performanceData = map row_to_point (js_default [] rows)
                                in (case getGscProperties env (pq_accountId q) of
                                      Inl e \<Rightarrow> (perf_failed_reply, [SearchConsoleQuery siteUrl daysNum])
                                    | Inr properties \<Rightarrow>
                                        (case find (\<lambda>p. site_url p = siteUrl) properties of
                                           None \<Rightarrow>
                                             (Reply 200 (PerfData performanceData),
                                              [SearchConsoleQuery siteUrl daysNum])
                                         | Some property \<Rightarrow>
                                             (case savePerformanceData env (property_id property) performanceData of
                                                Inl e \<Rightarrow>
                                                  (perf_failed_reply,
                                                   [SearchConsoleQuery siteUrl daysNum, SaveData (property_id property)])
                                              | Inr u \<Rightarrow>
                                                  (Reply 200 (PerfData performanceData),
                                                   [SearchConsoleQuery siteUrl daysNum, SaveData (property_id property)])))))))
      | Some other \<Rightarrow>
          if string_conversion_throws other then (perf_failed_reply, [])
          else (Reply 400 (PerfError ''Site URL is required''), []))"

text \<open>The route: \<open>validateAccountId\<close>, then the handler on the request it passes on.\<close>

definition performance_route ::
  "(json \<Rightarrow> sanitized) \<Rightarrow> 'a perf_env \<Rightarrow> perf_request
     \<Rightarrow> perf_reply_body reply \<times> perf_effect list" where
  "performance_route sanitize env q =
     (case validateAccountId sanitize (pb_accountId q) (pq_accountId q) of
        IdMissing \<Rightarrow> (Reply 400 (PerfError ''Account ID is required''), [])
      | IdRejected e \<Rightarrow> (Reply 400 (PerfValidationError e), [])
      | IdAccepted bodyId queryId \<Rightarrow>
          performance_handler env (q\<lparr> pb_accountId := bodyId, pq_accountId := queryId \<rparr>))"

section \<open>Example inputs\<close>

text \<open>
  Rounding that changes nothing. It agrees with the rounding of doubles on every value
  that is a double already, and the examples compute only such values (integers, and
  30 / 60 = 0.5).
\<close>

definition exact_rounding :: rounding where
  "exact_rounding x = Finite x"

definition empty_body :: request_body where
  "empty_body = \<lparr> body_targetScore = None, body_maxIterations = None,
     body_minImprovementThreshold = None, body_fixTypes = None,
     body_maxChangesPerIteration = None, body_skipBackup = None \<rparr>"

definition default_options :: fix_options where
  "default_options = \<lparr> opt_targetScore = JNum (Finite 85), opt_maxIterations = JNum (Finite 5),
     opt_minImprovementThreshold = JNum (Finite 2), opt_fixTypes = None,
     opt_maxChangesPerIteration = JNum (Finite 20), opt_skipBackup = JBool False \<rparr>"

definition default_config :: config where
  "default_config = \<lparr> config.targetScore = 85, maxIterations = 5, minImprovementThreshold = 2,
     fixTypes = None, maxChangesPerIteration = 20, skipBackup = False \<rparr>"

definition sample_result :: service_result where
  "sample_result = \<lparr> initialScore = 60, finalScore = 90, scoreImprovement = 30, targetScore = 85,
     iterationsCompleted = 3, stoppedReason = target_reached, iterations = [],
     fixesApplied = [], errors = [], success = True, message = ''done'', stats = [],
     detailedLog = [] \<rparr>"

definition sample_service :: "fix_options \<Rightarrow> thrown + service_result" where
  "sample_service opts = Inr sample_result"

text \<open>
  A site whose score is the state itself: every Fix Applier call raises it by \<open>g\<close>, the
  Analyzer reads it, no issue is reported and the clock stands still.
\<close>

definition gain_collab :: "nat \<Rightarrow> nat collaborators" where
  "gain_collab g =
     \<lparr> hasAnalysis = (\<lambda>w. True),
       analyze = (\<lambda>w. Inr (\<lparr> score = real w, issues = [] \<rparr>, w)),
       applyFixes = (\<lambda>w found allowed maxChanges. Inr ([], w + g)),
       now = (\<lambda>w. 0) \<rparr>"




definition step_record :: "nat \<Rightarrow> real \<Rightarrow> real \<Rightarrow> iteration_record" where
  "step_record n b a =
     \<lparr> iterationNumber = n, scoreBefore = b, scoreAfter = a, improvement = a - b,
       fixesAttempted = 0, fixesSuccessful = 0, analysisTime = 0, fixTime = 0, timestamp = 0 \<rparr>"

definition gain10_result :: remediation_result where
  "gain10_result =
     \<lparr> initialScore = 60, finalScore = 90, scoreImprovement = 30, targetScore = 85,
       iterationsCompleted = 3, stoppedReason = target_reached,
       iterations = [step_record 1 60 70, step_record 2 70 80, step_record 3 80 90],
       fixesApplied = [], errors = [] \<rparr>"

definition gain1_result :: remediation_result where
  "gain1_result =
     \<lparr> initialScore = 60, finalScore = 61, scoreImprovement = 1, targetScore = 85,
       iterationsCompleted = 1, stoppedReason = no_improvement,
       iterations = [step_record 1 60 61],
       fixesApplied = [], errors = [] \<rparr>"









text \<open>A sanitizer that accepts every id as it is.\<close>

definition accept_id :: "json \<Rightarrow> sanitized" where
  "accept_id v = Valid v"

definition full_quota_env :: "unit index_env" where
  "full_quota_env =
     \<lparr> getGscQuotaUsage = (\<lambda>accountId. Inr \<lparr> used = 200, limit = 200 \<rparr>),
       getGscAccountWithCredentials = (\<lambda>accountId. Inr (Some ())),
       publish = (\<lambda>url type. Inr None),
       incrementGscQuotaUsage = (\<lambda>accountId url. Inr ()) \<rparr>"

definition update_request :: index_request where
  "update_request =
     \<lparr> ib_accountId = Some (JStr (units ''acct-1'')), iq_accountId = None,
       ib_url = Some (JStr (units ''https://example.com/page'')), ib_type = None \<rparr>"

definition quiet_perf_env :: "unit perf_env" where
  "quiet_perf_env =
     \<lparr> perf_account = (\<lambda>accountId. Inr (Some ())),
       searchanalytics_query = (\<lambda>siteUrl days. Inr None),
       getGscProperties = (\<lambda>accountId. Inr []),
       savePerformanceData = (\<lambda>propertyId rows. Inr ()) \<rparr>"


section \<open>Properties of the iterative AI fix route\<close>

lemma catch_reply_not_result: "body (catch_reply e) \<noteq> ResultBody p"
  by (simp add: catch_reply_def split: thrown.splits)

text \<open>A success reply always carries the payload of the result the service returned.\<close>

lemma handler_result:
  assumes "fst (iterative_ai_fix rnd gw service b) = Reply n (ResultBody p)"
  shows "\<exists>result. service (request_options b) = Inr result
           \<and> p = response_payload rnd result (opt_maxIterations (request_options b))
           \<and> n = 200 \<and> snd (iterative_ai_fix rnd gw service b) = [request_options b]"
proof -
  have nr: "\<And>e. catch_reply e \<noteq> Reply n (ResultBody p)"
    using catch_reply_not_result by (metis reply.sel(2))
  from assms show ?thesis
    unfolding iterative_ai_fix_def Let_def
    by (simp add: nr split: sum.splits option.splits if_splits)
qed

text \<open>
  Conversely, when the website is found, the request passes the checks and the service
  returns a result, the reply is the payload of that result.
\<close>

lemma handler_success:
  assumes "gw = Inr (Some website)" and "passes_validation rnd b"
    and "service (request_options b) = Inr result"
  shows "iterative_ai_fix rnd gw service b =
           (Reply 200 (ResultBody (response_payload rnd result (opt_maxIterations (request_options b)))),
            [request_options b])"
  using assms by (simp add: iterative_ai_fix_def passes_validation_def Let_def)

text \<open>The service is called exactly when the website is found and the request passes the checks.\<close>

lemma service_call_exact:
  "snd (iterative_ai_fix rnd gw service b) =
     (if (\<exists>website. gw = Inr (Some website)) \<and> passes_validation rnd b
      then [request_options b] else [])"
  by (auto simp: iterative_ai_fix_def passes_validation_def Let_def split: sum.splits option.splits)

lemma empty_body_options: "request_options empty_body = default_options"
  by (simp add: request_options_def empty_body_def default_options_def js_default_def)

lemma empty_body_passes: "passes_validation exact_rounding empty_body"
  by (simp add: passes_validation_def empty_body_options default_options_def
                target_out_of_range_def iterations_out_of_range_def)

lemma sample_reply:
  "fst (iterative_ai_fix exact_rounding (Inr (Some ())) sample_service empty_body)
     = Reply 200 (ResultBody (response_payload exact_rounding sample_result (JNum (Finite 5))))"
  using handler_success [of "Inr (Some ())" "()" exact_rounding empty_body sample_service sample_result]
  by (simp add: empty_body_passes sample_service_def empty_body_options default_options_def)

text \<open>
  Claim C7. Whenever the handler invokes the service, every numeric option the request
  left out has its documented default: \<open>targetScore = 85\<close>, \<open>maxIterations = 5\<close>,
  \<open>minImprovementThreshold = 2\<close>, \<open>maxChangesPerIteration = 20\<close>. A request that leaves
  all four out, for a website the lookup finds, invokes the service exactly once, with
  exactly these values.
\<close>

theorem request_defaults_applied:
  "(\<forall>c \<in> set (snd (iterative_ai_fix rnd gw service b)).
      (body_targetScore b = None \<longrightarrow> opt_targetScore c = JNum (Finite 85)) \<and>
      (body_maxIterations b = None \<longrightarrow> opt_maxIterations c = JNum (Finite 5)) \<and>
      (body_minImprovementThreshold b = None \<longrightarrow> opt_minImprovementThreshold c = JNum (Finite 2)) \<and>
      (body_maxChangesPerIteration b = None \<longrightarrow> opt_maxChangesPerIteration c = JNum (Finite 20))) \<and>
   (gw = Inr (Some website) \<and> body_targetScore b = None \<and> body_maxIterations b = None \<and>
    body_minImprovementThreshold b = None \<and> body_maxChangesPerIteration b = None \<longrightarrow>
      snd (iterative_ai_fix rnd gw service b) =
        [\<lparr> opt_targetScore = JNum (Finite 85), opt_maxIterations = JNum (Finite 5),
            opt_minImprovementThreshold = JNum (Finite 2),
            opt_fixTypes = body_fixTypes b, opt_maxChangesPerIteration = JNum (Finite 20),
            opt_skipBackup = js_default (JBool False) (body_skipBackup b) \<rparr>])"
proof (intro conjI ballI impI)
  fix c
  assume c: "c \<in> set (snd (iterative_ai_fix rnd gw service b))"
  have "snd (iterative_ai_fix rnd gw service b) = [] \<or>
        snd (iterative_ai_fix rnd gw service b) = [request_options b]"
    by (simp add: iterative_ai_fix_def Let_def split: sum.splits option.splits)
  with c have c': "c = request_options b" by auto
  show "body_targetScore b = None \<Longrightarrow> opt_targetScore c = JNum (Finite 85)"
    by (simp add: c' request_options_def js_default_def)
  show "body_maxIterations b = None \<Longrightarrow> opt_maxIterations c = JNum (Finite 5)"
    by (simp add: c' request_options_def js_default_def)
  show "body_minImprovementThreshold b = None \<Longrightarrow> opt_minImprovementThreshold c = JNum (Finite 2)"
    by (simp add: c' request_options_def js_default_def)
  show "body_maxChangesPerIteration b = None \<Longrightarrow> opt_maxChangesPerIteration c = JNum (Finite 20)"
    by (simp add: c' request_options_def js_default_def)
next
  assume "gw = Inr (Some website) \<and> body_targetScore b = None \<and> body_maxIterations b = None \<and>
    body_minImprovementThreshold b = None \<and> body_maxChangesPerIteration b = None"
  then show "snd (iterative_ai_fix rnd gw service b) =
        [\<lparr> opt_targetScore = JNum (Finite 85), opt_maxIterations = JNum (Finite 5),
            opt_minImprovementThreshold = JNum (Finite 2),
            opt_fixTypes = body_fixTypes b, opt_maxChangesPerIteration = JNum (Finite 20),
            opt_skipBackup = js_default (JBool False) (body_skipBackup b) \<rparr>]"
    by (simp add: iterative_ai_fix_def request_options_def js_default_def Let_def
                  target_out_of_range_def iterations_out_of_range_def split: sum.splits)
qed

theorem request_defaults_applied_witness:
  "snd (iterative_ai_fix exact_rounding (Inr (Some ())) sample_service empty_body) = [default_options]"
  using request_defaults_applied [of exact_rounding "Inr (Some ())" sample_service empty_body "()"]
  by (simp add: empty_body_def default_options_def js_default_def)

text \<open>
  On a JSON number the two range tests are the numeric ones; a value that converts to
  \<open>NaN\<close> fails neither.
\<close>

lemma range_tests_on_numbers:
  "target_out_of_range rnd (JNum (Finite x)) \<longleftrightarrow> x < 50 \<or> x > 100"
  "iterations_out_of_range rnd (JNum (Finite x)) \<longleftrightarrow> x < 1 \<or> x > 10"
  by (simp_all add: target_out_of_range_def iterations_out_of_range_def)

lemma range_tests_on_NaN:
  "ToNumber rnd v = NaN \<Longrightarrow> \<not> target_out_of_range rnd v \<and> \<not> iterations_out_of_range rnd v"
  by (simp add: target_out_of_range_def iterations_out_of_range_def)




text \<open>
  It fails as well for a target score that is no number: the string \<open>abc\<close> is not in
  [50,100], yet both comparisons are false for it, and the service is called.
\<close>

lemmas number_eval = StringToNumber_def trim_def radix_prefix_def decimal_literal_def
  all_digits_def is_white_space_def is_digit_def digit_value_def digits_value_def units_def Let_def

lemma non_numeric_target_reaches_service:
  "iterative_ai_fix exact_rounding (Inr (Some ())) sample_service
     (empty_body\<lparr>body_targetScore := Some (JStr (units ''abc''))\<rparr>) =
   (Reply 200 (ResultBody (response_payload exact_rounding sample_result (JNum (Finite 5)))),
    [default_options\<lparr>opt_targetScore := JStr (units ''abc'')\<rparr>])"
proof -
  have n: "StringToNumber exact_rounding (units ''abc'') = NaN"
    by (simp add: number_eval)
  show ?thesis
    by (simp add: iterative_ai_fix_def request_options_def js_default_def empty_body_def
                  default_options_def target_out_of_range_def iterations_out_of_range_def n
                  sample_service_def)
qed

text \<open>
  Claim C10. The statistics are computed in double arithmetic, whose rounding is a
  parameter. No division by zero takes place: every divisor of a division that is
  carried out is positive. \<open>averageImprovementPerIteration\<close> is the (rounded) quotient of
  the score improvement by the iteration count when that count is positive and 0
  otherwise, and \<open>scoreProgressionPercentage\<close> is \<open>Math.round\<close> of the improvement divided by
  the initial score, times 100, when that score is positive and 0 otherwise. These are
  the statistics of the reply whenever the service returns a result, and a success
  reply carries no other.
\<close>

theorem stats_never_divide_by_zero:
  "(\<forall>d \<in> set (snd (response_stats_traced rnd result)). d > 0) \<and>
   averageImprovementPerIteration (response_stats rnd result) =
     (if iterationsCompleted result > 0
      then rnd (scoreImprovement result / real (iterationsCompleted result)) else Finite 0) \<and>
   scoreProgressionPercentage (response_stats rnd result) =
     (if initialScore result > 0
      then Math_round (js_times rnd (rnd (scoreImprovement result / initialScore result)) 100)
      else Finite 0) \<and>
   (gw = Inr (Some website) \<and> passes_validation rnd b \<and> service (request_options b) = Inr result \<longrightarrow>
      (\<exists>p. fst (iterative_ai_fix rnd gw service b) = Reply 200 (ResultBody p) \<and>
            out_stats p = response_stats rnd result)) \<and>
   (\<forall>n p. fst (iterative_ai_fix rnd gw service b) = Reply n (ResultBody p) \<longrightarrow>
      (\<exists>r. service (request_options b) = Inr r \<and> out_stats p = response_stats rnd r))"
proof (intro conjI)
  show "\<forall>d \<in> set (snd (response_stats_traced rnd result)). d > 0"
    by (simp add: response_stats_traced_def Let_def)
  show "averageImprovementPerIteration (response_stats rnd result) =
     (if iterationsCompleted result > 0
      then rnd (scoreImprovement result / real (iterationsCompleted result)) else Finite 0)"
    by (simp add: response_stats_def response_stats_traced_def Let_def js_div_def)
  show "scoreProgressionPercentage (response_stats rnd result) =
     (if initialScore result > 0
      then Math_round (js_times rnd (rnd (scoreImprovement result / initialScore result)) 100)
      else Finite 0)"
    by (simp add: response_stats_def response_stats_traced_def Let_def js_div_def)
  show "gw = Inr (Some website) \<and> passes_validation rnd b \<and> service (request_options b) = Inr result \<longrightarrow>
      (\<exists>p. fst (iterative_ai_fix rnd gw service b) = Reply 200 (ResultBody p) \<and>
            out_stats p = response_stats rnd result)"
    by (auto simp: handler_success response_payload_def)
  show "\<forall>n p. fst (iterative_ai_fix rnd gw service b) = Reply n (ResultBody p) \<longrightarrow>
      (\<exists>r. service (request_options b) = Inr r \<and> out_stats p = response_stats rnd r)"
  proof (intro allI impI)
    fix n p
    assume "fst (iterative_ai_fix rnd gw service b) = Reply n (ResultBody p)"
    from handler_result [OF this]
    show "\<exists>r. service (request_options b) = Inr r \<and> out_stats p = response_stats rnd r"
      by (auto simp: response_payload_def)
  qed
qed

theorem stats_never_divide_by_zero_witness:
  "snd (response_stats_traced exact_rounding sample_result) = [60, 3] \<and>
   averageImprovementPerIteration (response_stats exact_rounding sample_result) = Finite 10 \<and>
   scoreProgressionPercentage (response_stats exact_rounding sample_result) = Finite 50 \<and>
   out_stats (response_payload exact_rounding sample_result (JNum (Finite 5)))
     = response_stats exact_rounding sample_result"
proof -
  note inst = stats_never_divide_by_zero [of exact_rounding sample_result "Inr (Some ())" "()"
                empty_body sample_service]
  have d: "snd (response_stats_traced exact_rounding sample_result) = [60, 3]"
    by (simp add: response_stats_traced_def sample_result_def)
  have pos: "\<forall>d \<in> set (snd (response_stats_traced exact_rounding sample_result)). d > 0"
    using inst by blast
  have a: "averageImprovementPerIteration (response_stats exact_rounding sample_result) = Finite 10"
    using inst by (simp add: sample_result_def exact_rounding_def)
  have s: "scoreProgressionPercentage (response_stats exact_rounding sample_result) = Finite 50"
    using inst by (simp add: sample_result_def exact_rounding_def)
  have "sample_service (request_options empty_body) = Inr sample_result"
    by (simp add: sample_service_def)
  with inst empty_body_passes sample_reply
  have o: "out_stats (response_payload exact_rounding sample_result (JNum (Finite 5)))
             = response_stats exact_rounding sample_result"
    by auto
  from d a s o show ?thesis by simp
qed

section \<open>Properties of the Remediation Controller\<close>

subsection \<open>The loop invariant\<close>

lemma iteration_Continue:
  assumes "iteration cfg collab st = Continue st'"
  shows "st_iterationsCompleted st' = st_iterationsCompleted st + 1"
    and "\<exists>rec. st_iterations st' = st_iterations st @ [rec] \<and> scoreAfter rec = currentScore st'"
    and "st_initialScore st' = st_initialScore st"
  using assms
  by (auto simp: iteration_def Let_def split: sum.splits prod.splits if_splits)

lemma iteration_Stop_error:
  assumes "iteration cfg collab st = Stop st' error"
  shows "st_iterations st' = st_iterations st"
    and "st_iterationsCompleted st' = st_iterationsCompleted st"
    and "currentScore st' = currentScore st"
    and "st_initialScore st' = st_initialScore st"
    and "st_errors st' \<noteq> []"
  using assms
  by (auto simp: iteration_def Let_def split: sum.splits prod.splits if_splits)

lemma iteration_Stop_other:
  assumes "iteration cfg collab st = Stop st' reason" and "reason \<noteq> error"
  shows "st_iterationsCompleted st' = st_iterationsCompleted st + 1"
    and "\<exists>rec. st_iterations st' = st_iterations st @ [rec] \<and> scoreAfter rec = currentScore st'
           \<and> improvement rec = scoreAfter rec - scoreBefore rec
           \<and> (reason = no_improvement \<longrightarrow> improvement rec < minImprovementThreshold cfg)"
    and "st_initialScore st' = st_initialScore st"
    and "reason = target_reached \<longrightarrow> currentScore st' \<ge> config.targetScore cfg"
    and "reason \<noteq> max_iterations"
  using assms
  by (auto simp: iteration_def Let_def split: sum.splits prod.splits if_splits)

lemma loop_result_ok:
  "state_ok cfg st \<Longrightarrow> result_ok cfg (fst (loop cfg collab st))"
proof (induction cfg collab st rule: loop.induct)
  case (1 cfg collab st)
  show ?case
  proof (cases "loop_guard cfg st")
    case False
    with "1.prems" show ?thesis
      by (simp add: loop.simps [of cfg collab st] state_ok_def result_ok_def finish_def)
  next
    case guard: True
    show ?thesis
    proof (cases "iteration cfg collab st")
      case (Continue st')
      from iteration_Continue [OF Continue] guard "1.prems"
      have "state_ok cfg st'"
        by (auto simp: state_ok_def loop_guard_def)
      with "1.IH" [OF guard Continue] have "result_ok cfg (fst (loop cfg collab st'))" .
      with guard Continue show ?thesis
        by (simp add: loop.simps [of cfg collab st])
    next
      case (Stop st' reason)
      have eq: "fst (loop cfg collab st) = finish cfg st' reason"
        using guard Stop by (simp add: loop.simps [of cfg collab st])
      show ?thesis
      proof (cases "reason = error")
        case True
        with iteration_Stop_error [of cfg collab st st'] Stop "1.prems" show ?thesis
          by (simp add: eq state_ok_def result_ok_def finish_def)
      next
        case False
        with iteration_Stop_other [OF Stop False] "1.prems" guard show ?thesis
          by (auto simp: eq state_ok_def result_ok_def finish_def loop_guard_def)
      qed
    qed
  qed
qed

lemma initial_state_ok: "valid_config cfg \<Longrightarrow> state_ok cfg (initial_state a w)"
  by (simp add: state_ok_def initial_state_def valid_config_def)

lemma run_Inr:
  assumes "fst (run collab w cfg) = Inr r"
  shows "\<exists>a w1. valid_config cfg \<and> hasAnalysis collab w \<and> analyze collab w = Inr (a, w1)
           \<and> r = fst (loop cfg collab (initial_state a w1))"
proof (cases "analyze collab w")
  case (Inl msg)
  with assms show ?thesis by (simp add: run_def split: if_splits)
next
  case (Inr p)
  obtain a w1 where p: "p = (a, w1)" by (cases p)
  with assms Inr show ?thesis
    by (simp add: run_def split: if_splits prod.splits)
qed

lemma run_loop:
  assumes "valid_config cfg" and "hasAnalysis collab w" and "analyze collab w = Inr (a, w1)"
  shows "fst (run collab w cfg) = Inr (fst (loop cfg collab (initial_state a w1)))"
  using assms by (simp add: run_def split: prod.splits)

lemma run_result_ok:
  assumes "fst (run collab w cfg) = Inr r"
  shows "result_ok cfg r"
proof -
  from run_Inr [OF assms] obtain a w1 where v: "valid_config cfg"
    and r: "r = fst (loop cfg collab (initial_state a w1))"
    by blast
  from loop_result_ok [OF initial_state_ok [OF v]] r show ?thesis by simp
qed

subsection \<open>Passes that complete\<close>

lemma completed_passes_loop:
  "completed_passes cfg collab k st = Some st' \<Longrightarrow> loop cfg collab st = loop cfg collab st'"
proof (induction k arbitrary: st)
  case 0
  then show ?case by simp
next
  case (Suc k)
  from Suc.prems obtain st1 where g: "loop_guard cfg st"
    and it: "iteration cfg collab st = Continue st1"
    and rest: "completed_passes cfg collab k st1 = Some st'"
    by (auto split: if_splits pass.splits)
  from g it have "loop cfg collab st = loop cfg collab st1"
    by (simp add: loop.simps [of cfg collab st])
  with Suc.IH [OF rest] show ?case by simp
qed

lemma completed_passes_ok:
  "completed_passes cfg collab k st = Some st' \<Longrightarrow> state_ok cfg st \<Longrightarrow>
     state_ok cfg st' \<and> st_iterationsCompleted st' = st_iterationsCompleted st + k
     \<and> st_initialScore st' = st_initialScore st"
proof (induction k arbitrary: st)
  case 0
  then show ?case by simp
next
  case (Suc k)
  from Suc.prems obtain st1 where g: "loop_guard cfg st"
    and it: "iteration cfg collab st = Continue st1"
    and rest: "completed_passes cfg collab k st1 = Some st'"
    by (auto split: if_splits pass.splits)
  from iteration_Continue [OF it] g Suc.prems(2) have ok1: "state_ok cfg st1"
    by (auto simp: state_ok_def loop_guard_def)
  from Suc.IH [OF rest ok1] iteration_Continue [OF it] show ?case by simp
qed


lemma low_yield_pass:
  assumes "applyFixes collab (world st) (currentIssues st) (fixTypes cfg) (maxChangesPerIteration cfg)
             = Inr (outcomes, w2)"
    and "analyze collab w2 = Inr (a2, w3)"
    and "clamp_score (score a2) - currentScore st < minImprovementThreshold cfg"
  shows "\<exists>st'. iteration cfg collab st =
            Stop st' (if clamp_score (score a2) \<ge> config.targetScore cfg
                      then target_reached else no_improvement) \<and>
          st_iterationsCompleted st' = st_iterationsCompleted st + 1 \<and>
          st_iterations st' \<noteq> [] \<and>
          improvement (last (st_iterations st')) = clamp_score (score a2) - currentScore st"
  using assms by (simp add: iteration_def Let_def)

text \<open>An invalid config is rejected before any collaborator is called.\<close>

lemma run_invalid_config:
  "\<not> valid_config cfg \<Longrightarrow> run collab w cfg = (Inl InvalidConfigError, [])"
  by (simp add: run_def)

text \<open>A run ends with \<open>error\<close> only when a pass has failed.\<close>

lemma Stop_error_fails:
  "iteration cfg collab st = Stop st' error \<Longrightarrow> pass_fails cfg collab st"
  by (auto simp: pass_fails_def iteration_def Let_def split: sum.splits prod.splits if_splits)

lemma loop_error_has_failing_pass:
  "stoppedReason (fst (loop cfg collab st)) = error \<Longrightarrow>
     \<exists>k st'. completed_passes cfg collab k st = Some st' \<and> loop_guard cfg st' \<and> pass_fails cfg collab st'"
proof (induction cfg collab st rule: loop.induct)
  case (1 cfg collab st)
  show ?case
  proof (cases "loop_guard cfg st")
    case False
    with "1.prems" show ?thesis
      by (simp add: loop.simps [of cfg collab st] finish_def split: if_splits)
  next
    case guard: True
    show ?thesis
    proof (cases "iteration cfg collab st")
      case (Continue st1)
      with guard "1.prems" have "stoppedReason (fst (loop cfg collab st1)) = error"
        by (simp add: loop.simps [of cfg collab st])
      from "1.IH" [OF guard Continue this] obtain k st'
        where "completed_passes cfg collab k st1 = Some st'" and "loop_guard cfg st'"
          and "pass_fails cfg collab st'" by blast
      with guard Continue have "completed_passes cfg collab (Suc k) st = Some st' \<and> loop_guard cfg st'
          \<and> pass_fails cfg collab st'" by simp
      then show ?thesis by blast
    next
      case (Stop st1 reason)
      with guard "1.prems" have "reason = error"
        by (simp add: loop.simps [of cfg collab st] finish_def)
      with Stop have "pass_fails cfg collab st" by (simp add: Stop_error_fails)
      with guard have "completed_passes cfg collab 0 st = Some st \<and> loop_guard cfg st \<and> pass_fails cfg collab st"
        by simp
      then show ?thesis by blast
    qed
  qed
qed

lemma run_error_has_failing_pass:
  assumes "fst (run collab w cfg) = Inr r" and "stoppedReason r = error"
  shows "\<exists>a w1 k st. analyze collab w = Inr (a, w1) \<and>
           completed_passes cfg collab k (initial_state a w1) = Some st \<and>
           loop_guard cfg st \<and> pass_fails cfg collab st"
proof -
  from run_Inr [OF assms(1)] obtain a w1 where a: "analyze collab w = Inr (a, w1)"
    and r: "r = fst (loop cfg collab (initial_state a w1))" by blast
  from loop_error_has_failing_pass [of cfg collab "initial_state a w1"] r assms(2)
  obtain k st where "completed_passes cfg collab k (initial_state a w1) = Some st"
    and "loop_guard cfg st" and "pass_fails cfg collab st" by blast
  with a show ?thesis by blast
qed

subsection \<open>The scenarios of the specification, evaluated\<close>

lemmas run_eval = run_def valid_config_def default_config_def initial_state_def clamp_score_def
  loop.simps loop_guard_def iteration_def Let_def finish_def step_record_def issue_errors_def

lemma run_gain10:
  "run (gain_collab 10) 60 default_config =
     (Inr gain10_result, [AnalyzerCall, FixApplierCall, AnalyzerCall, FixApplierCall, AnalyzerCall,
                          FixApplierCall, AnalyzerCall])"
  by (simp add: run_eval gain_collab_def gain10_result_def)

lemma run_gain1:
  "run (gain_collab 1) 60 default_config =
     (Inr gain1_result, [AnalyzerCall, FixApplierCall, AnalyzerCall])"
  by (simp add: run_eval gain_collab_def gain1_result_def)


lemma default_config_valid: "valid_config default_config"
  by (simp add: valid_config_def default_config_def)

lemma first_analysis_failure:
  assumes "valid_config cfg" and "hasAnalysis collab w" and "analyze collab w = Inl msg"
  shows "run collab w cfg = (Inl (SiteUnreachableError msg), [AnalyzerCall])"
  using assms by (simp add: run_def)

subsection \<open>Claims about the controller\<close>

text \<open>
  Claim C1. Every run with a valid config that returns a result has as many iteration
  records as it counts completed iterations, and at most \<open>maxIterations\<close> of them; its
  final score is the last record's \<open>scoreAfter\<close> when an iteration completed and the
  initial score otherwise. The route reports these fields of the result unchanged.
\<close>

theorem run_invariants:
  assumes "valid_config cfg" and "fst (run collab w cfg) = Inr r"
  shows "iterationsCompleted r = length (iterations r) \<and>
         int (length (iterations r)) \<le> maxIterations cfg \<and>
         finalScore r = (if iterationsCompleted r > 0 then scoreAfter (last (iterations r))
                         else initialScore r) \<and>
         (fst (iterative_ai_fix rnd gw service b) = Reply n (ResultBody p) \<longrightarrow>
            (\<exists>result. service (request_options b) = Inr result \<and>
               out_iterationsCompleted p = iterationsCompleted result \<and>
               length (out_iterations p) = length (iterations result) \<and>
               out_initialScore p = initialScore result \<and>
               out_finalScore p = finalScore result))"
proof -
  have "result_ok cfg r"
    by (rule run_result_ok [OF assms(2)])
  then have ctl: "iterationsCompleted r = length (iterations r) \<and>
         int (length (iterations r)) \<le> maxIterations cfg \<and>
         finalScore r = (if iterationsCompleted r > 0 then scoreAfter (last (iterations r))
                         else initialScore r)"
    by (auto simp: result_ok_def)
  have "fst (iterative_ai_fix rnd gw service b) = Reply n (ResultBody p) \<Longrightarrow>
            (\<exists>result. service (request_options b) = Inr result \<and>
               out_iterationsCompleted p = iterationsCompleted result \<and>
               length (out_iterations p) = length (iterations result) \<and>
               out_initialScore p = initialScore result \<and>
               out_finalScore p = finalScore result)"
    using handler_result [of rnd gw service b n p] by (auto simp: response_payload_def)
  with ctl show ?thesis by blast
qed

theorem run_invariants_witness:
  "iterationsCompleted gain10_result = length (iterations gain10_result) \<and>
   int (length (iterations gain10_result)) \<le> maxIterations default_config \<and>
   finalScore gain10_result = scoreAfter (last (iterations gain10_result)) \<and>
   out_iterationsCompleted (response_payload exact_rounding sample_result (JNum (Finite 5)))
     = iterationsCompleted sample_result"
proof -
  have h: "fst (run (gain_collab 10) 60 default_config) = Inr gain10_result"
    by (simp add: run_gain10)
  have pos: "iterationsCompleted gain10_result > 0"
    by (simp add: gain10_result_def)
  have s: "sample_service (request_options empty_body) = Inr sample_result"
    by (simp add: sample_service_def)
  from run_invariants [OF default_config_valid h, of exact_rounding "Inr (Some ())" sample_service
         empty_body 200 "response_payload exact_rounding sample_result (JNum (Finite 5))"]
       sample_reply pos s
  show ?thesis by simp
qed

text \<open>
  Claim C2. A run that stops with \<open>target_reached\<close> has a final score of at least the
  target score, which is the one the config asked for. On the route, when the service
  returns a result the reply reports the result's final score and target score, and its
  \<open>targetReached\<close> field is true exactly when the result's final score is at least the
  result's target score; and every success reply is the report of such a result.
\<close>

theorem target_reached_sound:
  "(fst (run collab w cfg) = Inr r \<and> stoppedReason r = target_reached \<longrightarrow>
      finalScore r \<ge> targetScore r \<and> targetScore r = config.targetScore cfg) \<and>
   (gw = Inr (Some website) \<and> passes_validation rnd b \<and> service (request_options b) = Inr result \<longrightarrow>
      (\<exists>p. fst (iterative_ai_fix rnd gw service b) = Reply 200 (ResultBody p) \<and>
            (targetReached p \<longleftrightarrow> finalScore result \<ge> targetScore result) \<and>
            out_finalScore p = finalScore result \<and> out_targetScore p = targetScore result)) \<and>
   (fst (iterative_ai_fix rnd gw service b) = Reply n (ResultBody q) \<longrightarrow>
      (\<exists>res. service (request_options b) = Inr res \<and>
             (targetReached q \<longleftrightarrow> finalScore res \<ge> targetScore res) \<and>
             out_finalScore q = finalScore res \<and> out_targetScore q = targetScore res))"
proof (intro conjI impI)
  assume "fst (run collab w cfg) = Inr r \<and> stoppedReason r = target_reached"
  then have "result_ok cfg r" and "stoppedReason r = target_reached"
    by (auto intro: run_result_ok)
  then show "finalScore r \<ge> targetScore r" and "targetScore r = config.targetScore cfg"
    by (simp_all add: result_ok_def)
next
  assume "gw = Inr (Some website) \<and> passes_validation rnd b \<and> service (request_options b) = Inr result"
  then show "\<exists>p. fst (iterative_ai_fix rnd gw service b) = Reply 200 (ResultBody p) \<and>
            (targetReached p \<longleftrightarrow> finalScore result \<ge> targetScore result) \<and>
            out_finalScore p = finalScore result \<and> out_targetScore p = targetScore result"
    by (auto simp: handler_success response_payload_def)
next
  assume "fst (iterative_ai_fix rnd gw service b) = Reply n (ResultBody q)"
  from handler_result [OF this]
  show "\<exists>res. service (request_options b) = Inr res \<and>
             (targetReached q \<longleftrightarrow> finalScore res \<ge> targetScore res) \<and>
             out_finalScore q = finalScore res \<and> out_targetScore q = targetScore res"
    by (auto simp: response_payload_def)
qed

theorem target_reached_sound_witness:
  "stoppedReason gain10_result = target_reached \<and> finalScore gain10_result \<ge> targetScore gain10_result \<and>
   targetReached (response_payload exact_rounding sample_result (JNum (Finite 5))) \<and>
   finalScore sample_result \<ge> targetScore sample_result"
proof -
  let ?p = "response_payload exact_rounding sample_result (JNum (Finite 5))"
  note inst = target_reached_sound [of "gain_collab 10" 60 default_config gain10_result
         "Inr (Some ())" "()" exact_rounding empty_body sample_service sample_result 200 ?p]
  have h: "fst (run (gain_collab 10) 60 default_config) = Inr gain10_result
             \<and> stoppedReason gain10_result = target_reached"
    by (simp add: run_gain10) (simp add: gain10_result_def)
  with inst have c: "finalScore gain10_result \<ge> targetScore gain10_result" by blast
  have s: "sample_service (request_options empty_body) = Inr sample_result"
    by (simp add: sample_service_def)
  from inst empty_body_passes s
  obtain p where p: "fst (iterative_ai_fix exact_rounding (Inr (Some ())) sample_service empty_body)
                       = Reply 200 (ResultBody p)"
    and t: "targetReached p \<longleftrightarrow> finalScore sample_result \<ge> targetScore sample_result"
    by blast
  from p sample_reply have "p = ?p" by simp
  moreover have g: "finalScore sample_result \<ge> targetScore sample_result"
    by (simp add: sample_result_def)
  ultimately show ?thesis using h c t by simp
qed

text \<open>
  Claim C4. A run that stops with \<open>no_improvement\<close> has a last iteration record whose
  improvement is below \<open>minImprovementThreshold\<close>, and that improvement is the record's
  own score difference, with no smoothing over earlier iterations. Conversely, a single
  pass whose improvement is below the threshold halts the loop whatever the number of
  iterations that remain: after \<open>k\<close> completed passes, if the next pass yields less than
  the threshold, the run ends with \<open>k + 1\<close> iterations, with reason \<open>no_improvement\<close>
  unless that same pass reached the target.
\<close>

theorem no_improvement_uses_current_delta:
  "(fst (run collab w cfg) = Inr r \<and> stoppedReason r = no_improvement \<longrightarrow>
      iterations r \<noteq> [] \<and>
      improvement (last (iterations r)) < minImprovementThreshold cfg \<and>
      improvement (last (iterations r)) =
        scoreAfter (last (iterations r)) - scoreBefore (last (iterations r))) \<and>
   (valid_config cfg \<and> hasAnalysis collab w \<and> analyze collab w = Inr (a, w1) \<and>
    completed_passes cfg collab k (initial_state a w1) = Some st \<and> loop_guard cfg st \<and>
    applyFixes collab (world st) (currentIssues st) (fixTypes cfg) (maxChangesPerIteration cfg)
      = Inr (outcomes, w2) \<and>
    analyze collab w2 = Inr (a2, w3) \<and>
    clamp_score (score a2) - currentScore st < minImprovementThreshold cfg \<longrightarrow>
      (\<exists>r'. fst (run collab w cfg) = Inr r' \<and> iterationsCompleted r' = k + 1 \<and>
             stoppedReason r' = (if clamp_score (score a2) \<ge> config.targetScore cfg
                                 then target_reached else no_improvement) \<and>
             improvement (last (iterations r')) = clamp_score (score a2) - currentScore st))"
proof (intro conjI impI)
  assume "fst (run collab w cfg) = Inr r \<and> stoppedReason r = no_improvement"
  then have "result_ok cfg r" and "stoppedReason r = no_improvement"
    by (auto intro: run_result_ok)
  then show "iterations r \<noteq> []"
    and "improvement (last (iterations r)) < minImprovementThreshold cfg"
    and "improvement (last (iterations r)) =
           scoreAfter (last (iterations r)) - scoreBefore (last (iterations r))"
    by (simp_all add: result_ok_def)
next
  assume H: "valid_config cfg \<and> hasAnalysis collab w \<and> analyze collab w = Inr (a, w1) \<and>
    completed_passes cfg collab k (initial_state a w1) = Some st \<and> loop_guard cfg st \<and>
    applyFixes collab (world st) (currentIssues st) (fixTypes cfg) (maxChangesPerIteration cfg)
      = Inr (outcomes, w2) \<and>
    analyze collab w2 = Inr (a2, w3) \<and>
    clamp_score (score a2) - currentScore st < minImprovementThreshold cfg"
  let ?reason = "if clamp_score (score a2) \<ge> config.targetScore cfg then target_reached else no_improvement"
  from H low_yield_pass [of collab st cfg outcomes w2 a2 w3]
  obtain st' where it: "iteration cfg collab st = Stop st' ?reason"
    and cnt': "st_iterationsCompleted st' = st_iterationsCompleted st + 1"
    and imp: "improvement (last (st_iterations st')) = clamp_score (score a2) - currentScore st"
    by blast
  from H have cp: "completed_passes cfg collab k (initial_state a w1) = Some st"
    and v: "valid_config cfg" and g: "loop_guard cfg st" by simp_all
  have cnt: "st_iterationsCompleted st = k"
    using completed_passes_ok [OF cp initial_state_ok [OF v]] by (simp add: initial_state_def)
  have "loop cfg collab (initial_state a w1) = loop cfg collab st"
    by (rule completed_passes_loop [OF cp])
  also have "fst \<dots> = finish cfg st' ?reason"
    using g it by (simp add: loop.simps [of cfg collab st])
  finally have "fst (run collab w cfg) = Inr (finish cfg st' ?reason)"
    using run_loop [of cfg collab w a w1] H by simp
  moreover have "iterationsCompleted (finish cfg st' ?reason) = k + 1"
    using cnt cnt' by (simp add: finish_def)
  moreover have "stoppedReason (finish cfg st' ?reason) = ?reason"
    by (simp add: finish_def)
  moreover have "improvement (last (iterations (finish cfg st' ?reason)))
                   = clamp_score (score a2) - currentScore st"
    using imp by (simp add: finish_def)
  ultimately show "\<exists>r'. fst (run collab w cfg) = Inr r' \<and> iterationsCompleted r' = k + 1 \<and>
             stoppedReason r' = ?reason \<and>
             improvement (last (iterations r')) = clamp_score (score a2) - currentScore st"
    by blast
qed

theorem no_improvement_uses_current_delta_witness:
  "stoppedReason gain1_result = no_improvement \<and> iterationsCompleted gain1_result = 1 \<and>
   improvement (last (iterations gain1_result)) < minImprovementThreshold default_config \<and>
   int (iterationsCompleted gain1_result) < maxIterations default_config"
proof -
  have r1: "fst (run (gain_collab 1) 60 default_config) = Inr gain1_result"
    by (simp only: run_gain1 fst_conv)
  have s1: "stoppedReason gain1_result = no_improvement"
    by (simp add: gain1_result_def)
  have hyps: "valid_config default_config \<and> hasAnalysis (gain_collab 1) 60 \<and>
      analyze (gain_collab 1) 60 = Inr (\<lparr> score = 60, issues = [] \<rparr>, 60) \<and>
      completed_passes default_config (gain_collab 1) 0 (initial_state \<lparr> score = 60, issues = [] \<rparr> 60)
        = Some (initial_state \<lparr> score = 60, issues = [] \<rparr> 60) \<and>
      loop_guard default_config (initial_state \<lparr> score = 60, issues = [] \<rparr> 60) \<and>
      applyFixes (gain_collab 1) (world (initial_state \<lparr> score = 60, issues = [] \<rparr> 60))
        (currentIssues (initial_state \<lparr> score = 60, issues = [] \<rparr> 60))
        (fixTypes default_config) (maxChangesPerIteration default_config) = Inr ([], 61) \<and>
      analyze (gain_collab 1) 61 = Inr (\<lparr> score = 61, issues = [] \<rparr>, 61) \<and>
      clamp_score (score \<lparr> score = 61, issues = [] \<rparr>)
        - currentScore (initial_state \<lparr> score = 60, issues = [] \<rparr> 60)
        < minImprovementThreshold default_config"
    by (simp add: valid_config_def default_config_def gain_collab_def initial_state_def
                  loop_guard_def clamp_score_def)
  note inst = no_improvement_uses_current_delta [of "gain_collab 1" 60 default_config gain1_result
         "\<lparr> score = 60, issues = [] \<rparr>" 60 0 "initial_state \<lparr> score = 60, issues = [] \<rparr> 60"
         "[]" 61 "\<lparr> score = 61, issues = [] \<rparr>" 61]
  from inst [THEN conjunct1] r1 s1
  have a: "improvement (last (iterations gain1_result)) < minImprovementThreshold default_config"
    by simp
  from inst [THEN conjunct2] hyps
  obtain r' where "fst (run (gain_collab 1) 60 default_config) = Inr r'"
    and b: "iterationsCompleted r' = 0 + 1"
    by blast
  with r1 have "iterationsCompleted gain1_result = 1" by simp
  with a s1 show ?thesis by (simp add: default_config_def)
qed








section \<open>Properties of the Search Console routes\<close>



text \<open>A request without an account id, or with one the sanitizer rejects, gets 400.\<close>

lemma index_id_missing:
  "validateAccountId sanitize (ib_accountId r) (iq_accountId r) = IdMissing \<Longrightarrow>
     index_route sanitize env r = (Reply 400 (IndexError ''Account ID is required''), [])"
  by (simp add: index_route_def)

lemma index_id_rejected:
  "validateAccountId sanitize (ib_accountId r) (iq_accountId r) = IdRejected e \<Longrightarrow>
     index_route sanitize env r = (Reply 400 (IndexValidationError e), [])"
  by (simp add: index_route_def)

lemma performance_id_missing:
  "validateAccountId sanitize (pb_accountId q) (pq_accountId q) = IdMissing \<Longrightarrow>
     performance_route sanitize env q = (Reply 400 (PerfError ''Account ID is required''), [])"
  by (simp add: performance_route_def)

lemma performance_id_rejected:
  "validateAccountId sanitize (pb_accountId q) (pq_accountId q) = IdRejected e \<Longrightarrow>
     performance_route sanitize env q = (Reply 400 (PerfValidationError e), [])"
  by (simp add: performance_route_def)

text \<open>
  Claim C8, as amended. Take a request whose account id \<open>validateAccountId\<close> accepts, and
  let the quota lookup for the id that the handler reads answer with \<open>used \<ge> limit\<close>.
  Then the route makes no publish call and no quota increment. Its reply is status 429
  with the quota message if the log line does not throw and the requested type is
  \<open>URL_UPDATED\<close> or \<open>URL_DELETED\<close> (or left out). The type is checked before the quota, so
  any other type is answered with status 400; and a url or type that cannot be
  converted to a string for the log line is answered with status 500.
\<close>

theorem quota_exceeded_rejected:
  assumes "validateAccountId sanitize (ib_accountId r) (iq_accountId r) = IdAccepted bodyId queryId"
    and "getGscQuotaUsage env bodyId = Inr q" and "used q \<ge> limit q"
  shows "snd (index_route sanitize env r) = [] \<and>
         fst (index_route sanitize env r) =
           (if index_log_throws r
            then Reply 500 (IndexError ''Failed to submit URL for indexing'')
            else if index_type r = JStr (units ''URL_UPDATED'') \<or>
                    index_type r = JStr (units ''URL_DELETED'')
            then Reply 429 (IndexError ''Daily quota exceeded (200 URLs/day)'')
            else Reply 400 (IndexError ''Invalid type. Must be URL_UPDATED or URL_DELETED''))"
  using assms
  by (simp add: index_route_def index_handler_def Let_def quota_exceeded_reply_def
                index_failed_reply_def index_log_throws_def index_type_def)

lemma update_request_accepted:
  "validateAccountId accept_id (ib_accountId update_request) (iq_accountId update_request)
     = IdAccepted (Some (JStr (units ''acct-1''))) None"
  by (simp add: validateAccountId_def update_request_def accept_id_def present_def units_def)

theorem quota_exceeded_rejected_witness:
  "snd (index_route accept_id full_quota_env update_request) = [] \<and>
   status (fst (index_route accept_id full_quota_env update_request)) = 429"
proof -
  have q: "getGscQuotaUsage full_quota_env (Some (JStr (units ''acct-1''))) = Inr \<lparr> used = 200, limit = 200 \<rparr>"
    by (simp add: full_quota_env_def)
  have e: "used \<lparr> used = 200, limit = 200 \<rparr> \<ge> limit \<lparr> used = 200, limit = 200 \<rparr>"
    by simp
  from quota_exceeded_rejected [OF update_request_accepted q e] show ?thesis
    by (simp add: update_request_def index_log_throws_def index_type_def js_default_def)
qed

text \<open>
  The claim as stated fails for a request with an unknown type: the account id is
  accepted and the quota is used up, but the reply has status 400, not 429.
\<close>

theorem quota_exceeded_status_counterexample:
  "status (fst (index_route accept_id full_quota_env
                  (update_request\<lparr> ib_type := Some (JStr (units ''URL_CREATED'')) \<rparr>))) = 400"
proof -
  let ?r = "update_request\<lparr> ib_type := Some (JStr (units ''URL_CREATED'')) \<rparr>"
  have "index_route accept_id full_quota_env ?r =
          index_handler full_quota_env
            (?r\<lparr> ib_accountId := Some (JStr (units ''acct-1'')), iq_accountId := None \<rparr>)"
    by (simp add: index_route_def update_request_accepted)
  then show ?thesis
    by (simp add: index_handler_def Let_def index_log_throws_def index_type_def js_default_def
                  update_request_def units_def)
qed

lemma days_number_ids [simp]:
  "days_number (q\<lparr> pb_accountId := x, pq_accountId := y \<rparr>) = days_number q"
  by (simp add: days_number_def)





text \<open>
  It fails as well for a request without an account id: \<open>validateAccountId\<close> answers it
  with status 400 before the handler runs, whatever its \<open>days\<close> value.
\<close>

lemma missing_account_id_days_valid:
  "status (fst (performance_route accept_id quiet_perf_env
      \<lparr> pb_accountId = None, pq_accountId = None,
        pq_siteUrl = Some (JStr (units ''https://example.com/'')),
        pq_days = Some (JStr (units ''28'')) \<rparr>)) = 400"
  by (simp add: performance_route_def validateAccountId_def present_def)


end
